theory Spec2Isabelle
  imports Complex_Main "HOL-Library.Sublist"
begin

section \<open>The sentence-transformer embedding manager\<close>

text \<open>
  A shallow embedding of \<^verbatim>\<open>sentence_transformer_manager.py\<close>. A Python \<^verbatim>\<open>str\<close> is a
  \<^typ>\<open>string\<close>, one \<^typ>\<open>char\<close> standing for one character of the Python string, so
  that \<^const>\<open>length\<close> is Python's \<^verbatim>\<open>len\<close>. An exception that a call raises is the
  \<open>Inl\<close> side of a sum. The collaborators that the module imports (the device selector, the
  model cache, the model handle's \<^verbatim>\<open>encode\<close>) are parameters, and every call made to them
  is recorded, in order, in a list of calls returned beside the result.
\<close>

subsection \<open>Exceptions\<close>

text \<open>
  An exception class is one of the two builtin classes the module names, the
  \<^verbatim>\<open>EmbeddingException\<close> it imports, a class \<open>Derived name bases\<close> declared with the given
  direct base classes, or some \<open>Other\<close> class with no base among these. Distinct
  constructors are distinct class objects: the dictionary lookup by \<^verbatim>\<open>type(exception)\<close>
  compares class objects, and the \<^verbatim>\<open>except\<close> clause asks for a subclass.

  Modelled from the spec: the declaration of \<^verbatim>\<open>EmbeddingException\<close> is outside this module;
  the spec calls it a domain-specific error, and it is a class of its own here, derived from
  neither builtin class.
\<close>

datatype exc_type =
    RuntimeError
  | ValueError
  | EmbeddingException
  | Derived string "exc_type list"
  | Other string

text \<open>An exception object: its class, \<^verbatim>\<open>str(e)\<close>, and \<^verbatim>\<open>__cause__\<close>.\<close>

datatype exn = Exn (exn_type: exc_type) (exn_str: string) (exn_cause: "exn option")

fun issubclass :: "exc_type \<Rightarrow> exc_type \<Rightarrow> bool" where
  "issubclass t u =
     (t = u \<or> (case t of Derived n bs \<Rightarrow> \<exists>b \<in> set bs. issubclass b u | _ \<Rightarrow> False))"

declare issubclass.simps [simp del]

definition isinstance :: "exn \<Rightarrow> exc_type \<Rightarrow> bool" where
  "isinstance e u = issubclass (exn_type e) u"

subsection \<open>String operations\<close>

text \<open>\<^verbatim>\<open>s.startswith(p)\<close>\<close>

fun startswith :: "string \<Rightarrow> string \<Rightarrow> bool" where
  "startswith s [] = True"
| "startswith [] (p # ps) = False"
| "startswith (c # cs) (p # ps) = (c = p \<and> startswith cs ps)"

text \<open>\<^verbatim>\<open>sub in s\<close>\<close>

fun str_contains :: "string \<Rightarrow> string \<Rightarrow> bool" where
  "str_contains sub [] = (sub = [])"
| "str_contains sub (c # cs) = (startswith (c # cs) sub \<or> str_contains sub cs)"

text \<open>\<^verbatim>\<open>str(n)\<close> for a non-negative integer: its decimal digits.\<close>

definition digit_char :: "nat \<Rightarrow> char" where
  "digit_char d = ''0123456789'' ! d"

fun str_of_nat :: "nat \<Rightarrow> string" where
  "str_of_nat n = (if n < 10 then [digit_char n] else str_of_nat (n div 10) @ [digit_char (n mod 10)])"

declare str_of_nat.simps [simp del]

text \<open>Reading a decimal numeral back, to check \<^const>\<open>str_of_nat\<close> against.\<close>

definition digit_value :: "char \<Rightarrow> nat" where
  "digit_value c = of_char c - 48"

definition nat_of_str :: "string \<Rightarrow> nat" where
  "nat_of_str s = foldl (\<lambda>a c. 10 * a + digit_value c) 0 s"

subsection \<open>Data\<close>

text \<open>An input is a text or an image; of an image only its identity is kept.\<close>

datatype embedding_input = Text string | Image nat

record execution_context =
  is_query_context :: bool

text \<open>
  The model handle (\<^verbatim>\<open>SentenceTransformer\<close>): its dictionary of prompts, its optional default
  prompt name, and \<^verbatim>\<open>encode\<close>, which returns the rows of a two-dimensional array or
  raises.
\<close>

record 'a sentence_transformer =
  prompts :: "string \<rightharpoonup> string"
  default_prompt_name :: "string option"
  encode :: "embedding_input list \<Rightarrow> string option \<Rightarrow> exn + 'a list list"

text \<open>
  The collaborators: \<^verbatim>\<open>GpuEmbeddingUtil.get_device_type\<close>,
  \<^verbatim>\<open>SentenceTransformerModelCache.initialize_model\<close> and
  \<^verbatim>\<open>SentenceTransformerModelCache.calculate_length\<close>. Their code is outside this module;
  each may return or raise.
\<close>

record ('dev, 'dir, 'a) collaborators =
  get_device_type :: "nat \<Rightarrow> exn + 'dev"
  initialize_model :: "string \<Rightarrow> 'dev \<Rightarrow> 'dir \<Rightarrow> exn + 'a sentence_transformer"
  cache_calculate_length :: "string \<Rightarrow> 'dir \<Rightarrow> exn + int"

text \<open>The fields of the manager that the module reads.\<close>

record 'dir manager =
  model_name :: string
  model_cache_dir :: 'dir

text \<open>The calls recorded: those to the collaborators, and the call of the failure handler.\<close>

datatype ('dev, 'dir) call =
    GetDeviceType nat
  | InitializeModel string 'dev 'dir
  | CalculateLength string 'dir
  | Encode "embedding_input list" "string option"
  | HandleExceededLength exn "embedding_input list"

text \<open>
  Modelled from the spec: \<^verbatim>\<open>Vector\<close> is declared outside this module; the spec calls it an
  immutable ordered numeric container wrapping one embedding.
\<close>

datatype 'a vector = Vector (vector_value: "'a list")

subsection \<open>Constants of the module\<close>

definition QUERY_PROMPT_NAME :: string where
  "QUERY_PROMPT_NAME = ''query''"

definition runtime_error_predicate :: "exn \<Rightarrow> bool" where
  "runtime_error_predicate e =
     (str_contains ''The size of tensor a'' (exn_str e) \<and>
      str_contains ''must match the size of tensor b'' (exn_str e))"

definition value_error_predicate :: "exn \<Rightarrow> bool" where
  "value_error_predicate e =
     startswith (exn_str e) ''Sequence length must be less than max_position_embeddings''"

definition EXCEEDED_LENGTH_EXCEPTION_PREDICATE_BY_EXCEPTION_TYPE :: "exc_type \<rightharpoonup> (exn \<Rightarrow> bool)" where
  "EXCEEDED_LENGTH_EXCEPTION_PREDICATE_BY_EXCEPTION_TYPE =
     [RuntimeError \<mapsto> runtime_error_predicate, ValueError \<mapsto> value_error_predicate]"

subsection \<open>The failure handler\<close>

text \<open>
  \<^verbatim>\<open>max\<close> of an iterable: on an empty one Python raises a \<^verbatim>\<open>ValueError\<close> (the wording of
  its message is that of CPython 3.12).
\<close>

definition max_empty_error :: exn where
  "max_empty_error = Exn ValueError ''max() iterable argument is empty'' None"

fun py_max :: "nat list \<Rightarrow> exn + nat" where
  "py_max [] = Inl max_empty_error"
| "py_max (x # xs) = Inr (fold max xs x)"

text \<open>\<^verbatim>\<open>len(str(x)) if isinstance(x, str) else 0\<close>\<close>

fun input_len :: "embedding_input \<Rightarrow> nat" where
  "input_len (Text s) = length s"
| "input_len (Image i) = 0"

definition longest_input_len :: "embedding_input list \<Rightarrow> exn + nat" where
  "longest_input_len inputs = py_max (map input_len inputs)"

definition exceeded_length_message :: "string \<Rightarrow> nat \<Rightarrow> string" where
  "exceeded_length_message name n =
     ''Model '' @ name @ '' failed to encode inputs - input was too long. '' @
     ''Try shortening the input text.'' @ [CHR 0x0A] @
     ''Longest input length: '' @ str_of_nat n @ '' chars''"

text \<open>The condition of the handler's \<^verbatim>\<open>if\<close>: the table has a predicate for the exact class
  of the exception, and the predicate holds of it.\<close>

definition exceeded_length_matches :: "exn \<Rightarrow> bool" where
  "exceeded_length_matches exception =
     (case EXCEEDED_LENGTH_EXCEPTION_PREDICATE_BY_EXCEPTION_TYPE (exn_type exception) of
        None \<Rightarrow> False
      | Some predicate \<Rightarrow> predicate exception)"

text \<open>
  \<^verbatim>\<open>__handle_exceeded_length_exception\<close>. Its return type is \<^verbatim>\<open>None\<close>: \<open>Inr ()\<close> is a normal
  return, \<open>Inl\<close> an exception raised.
\<close>

definition handle_exceeded_length_exception ::
  "'dir manager \<Rightarrow> exn \<Rightarrow> embedding_input list \<Rightarrow> exn + unit" where
  "handle_exceeded_length_exception self exception inputs =
     (if exceeded_length_matches exception then
        (case longest_input_len inputs of
           Inl e \<Rightarrow> Inl e
         | Inr n \<Rightarrow>
             Inl (Exn EmbeddingException (exceeded_length_message (model_name self) n)
                    (Some exception)))
      else Inl exception)"

subsection \<open>The manager's methods\<close>

definition calculate_prompt_name :: "'a sentence_transformer \<Rightarrow> execution_context \<Rightarrow> string option" where
  "calculate_prompt_name model context =
     (if QUERY_PROMPT_NAME \<in> dom (prompts model) \<and> is_query_context context
      then Some QUERY_PROMPT_NAME
      else default_prompt_name model)"

definition get_embedding_model ::
  "('dev, 'dir, 'a) collaborators \<Rightarrow> 'dir manager \<Rightarrow> nat \<Rightarrow>
     (exn + 'a sentence_transformer) \<times> ('dev, 'dir) call list" where
  "get_embedding_model env self number_of_inputs =
     (case get_device_type env number_of_inputs of
        Inl e \<Rightarrow> (Inl e, [GetDeviceType number_of_inputs])
      | Inr device_type \<Rightarrow>
          (initialize_model env (model_name self) device_type (model_cache_dir self),
           [GetDeviceType number_of_inputs,
            InitializeModel (model_name self) device_type (model_cache_dir self)]))"

text \<open>
  The error of reading the local \<^verbatim>\<open>embeddings\<close> when the \<^verbatim>\<open>except\<close> block has ended
  without binding it (an \<^verbatim>\<open>UnboundLocalError\<close>, a \<^verbatim>\<open>NameError\<close>).
\<close>

definition unbound_embeddings_error :: exn where
  "unbound_embeddings_error =
     Exn (Derived ''UnboundLocalError'' [Other ''NameError''])
       ''cannot access local variable 'embeddings' where it is not associated with a value''
       None"

text \<open>
  \<^verbatim>\<open>_embed\<close>. \<^verbatim>\<open>_encode\<close> is inlined, and \<^verbatim>\<open>tolist\<close> of the rows is the rows. The
  decorator \<^verbatim>\<open>time_execution\<close>, declared outside this module, is taken to return or raise what
  the method it wraps returns or raises. When the handler has raised \<open>e'\<close>, \<^verbatim>\<open>_embed\<close>
  raises \<open>e'\<close>; had the handler returned, the \<^verbatim>\<open>return\<close> after the \<^verbatim>\<open>try\<close> would read
  the unbound local.
\<close>

definition embed ::
  "('dev, 'dir, 'a) collaborators \<Rightarrow> 'dir manager \<Rightarrow> embedding_input list \<Rightarrow> execution_context \<Rightarrow>
     (exn + 'a list list) \<times> ('dev, 'dir) call list" where
  "embed env self inputs context =
     (case get_embedding_model env self (length inputs) of
        (Inl e, calls) \<Rightarrow> (Inl e, calls)
      | (Inr model, calls) \<Rightarrow>
          (let prompt_name = calculate_prompt_name model context in
           case encode model inputs prompt_name of
             Inr embeddings \<Rightarrow> (Inr embeddings, calls @ [Encode inputs prompt_name])
           | Inl e \<Rightarrow>
               if isinstance e RuntimeError \<or> isinstance e ValueError then
                 (case handle_exceeded_length_exception self e inputs of
                    Inl e' \<Rightarrow>
                      (Inl e', calls @ [Encode inputs prompt_name, HandleExceededLength e inputs])
                  | Inr u \<Rightarrow>
                      (Inl unbound_embeddings_error,
                       calls @ [Encode inputs prompt_name, HandleExceededLength e inputs]))
               else (Inl e, calls @ [Encode inputs prompt_name])))"

text \<open>
  \<^verbatim>\<open>embed_text\<close>. Its inputs are annotated as strings; the model takes the inputs of
  \<^verbatim>\<open>_embed\<close>, texts or images, which it passes on.
\<close>

definition embed_text ::
  "('dev, 'dir, 'a) collaborators \<Rightarrow> 'dir manager \<Rightarrow> embedding_input list \<Rightarrow> execution_context \<Rightarrow>
     (exn + 'a vector list) \<times> ('dev, 'dir) call list" where
  "embed_text env self inputs context =
     (if inputs = [] then (Inr [], [])
      else
        (case embed env self inputs context of
           (Inl e, calls) \<Rightarrow> (Inl e, calls)
         | (Inr embeddings, calls) \<Rightarrow> (Inr (map Vector embeddings), calls)))"

definition calculate_length ::
  "('dev, 'dir, 'a) collaborators \<Rightarrow> 'dir manager \<Rightarrow> (exn + int) \<times> ('dev, 'dir) call list" where
  "calculate_length env self =
     (cache_calculate_length env (model_name self) (model_cache_dir self),
      [CalculateLength (model_name self) (model_cache_dir self)])"

subsection \<open>What the spec says of the reported length\<close>

text \<open>
  Following the spec's words, not the code: the reported length is the maximum of the lengths
  of the string inputs of the batch, an input that is not a string counting as zero. The
  lengths of the string inputs are collected first; zero stands for every other input.
\<close>

fun string_lengths :: "embedding_input list \<Rightarrow> nat list" where
  "string_lengths [] = []"
| "string_lengths (Text s # xs) = length s # string_lengths xs"
| "string_lengths (Image i # xs) = string_lengths xs"

definition spec_longest_input_length :: "embedding_input list \<Rightarrow> nat" where
  "spec_longest_input_length inputs = Max (insert 0 (set (string_lengths inputs)))"

text \<open>
  Following the usual reading of a decimal numeral, not the code: \<open>ds\<close> is the decimal numeral
  of \<open>n\<close> when it is a non-empty string of digits, without a leading zero unless it is
  \<^verbatim>\<open>"0"\<close>, whose value is \<open>n\<close>.
\<close>

definition is_digit :: "char \<Rightarrow> bool" where
  "is_digit c = (c \<in> set ''0123456789'')"

definition decimal_of :: "string \<Rightarrow> nat \<Rightarrow> bool" where
  "decimal_of ds n =
     (ds \<noteq> [] \<and> list_all is_digit ds \<and> (ds = ''0'' \<or> hd ds \<noteq> CHR ''0'') \<and> nat_of_str ds = n)"

subsection \<open>Example collaborators\<close>

text \<open>Concrete managers, models and collaborators, on which the theorems are run.\<close>

definition example_manager :: "string manager" where
  "example_manager = \<lparr>model_name = ''all-MiniLM-L6-v2'', model_cache_dir = ''/cache''\<rparr>"

text \<open>A model without prompts whose \<^verbatim>\<open>encode\<close> raises the given exception.\<close>

definition raising_model :: "exn \<Rightarrow> real sentence_transformer" where
  "raising_model e =
     \<lparr>prompts = Map.empty, default_prompt_name = None, encode = (\<lambda>inputs prompt_name. Inl e)\<rparr>"

text \<open>A model that declares the prompt \<^verbatim>\<open>"query"\<close>, has it as default, and encodes every
  input as a row of two numbers.\<close>

definition query_model :: "real sentence_transformer" where
  "query_model =
     \<lparr>prompts = [''query'' \<mapsto> ''query: '', ''passage'' \<mapsto> ''passage: ''],
      default_prompt_name = Some ''query'',
      encode = (\<lambda>inputs prompt_name. Inr (map (\<lambda>x. [real (input_len x), 1 / 2]) inputs))\<rparr>"

text \<open>Collaborators that always return: the device by batch size, the given model, length 2.\<close>

definition example_env :: "real sentence_transformer \<Rightarrow> (string, string, real) collaborators" where
  "example_env model =
     \<lparr>get_device_type = (\<lambda>n. Inr (if n < 10000 then ''cpu'' else ''cuda'')),
      initialize_model = (\<lambda>name device cache_dir. Inr model),
      cache_calculate_length = (\<lambda>name cache_dir. Inr 2)\<rparr>"

definition indexing_context :: execution_context where
  "indexing_context = \<lparr>is_query_context = False\<rparr>"

definition query_context :: execution_context where
  "query_context = \<lparr>is_query_context = True\<rparr>"

definition tensor_size_error :: exn where
  "tensor_size_error = Exn RuntimeError
     ''The size of tensor a (514) must match the size of tensor b (512) at non-singleton dimension 1''
     None"

definition tensor_a_only_error :: exn where
  "tensor_a_only_error = Exn RuntimeError ''The size of tensor a (514) is not supported'' None"

definition mixed_inputs :: "embedding_input list" where
  "mixed_inputs = [Text ''short'', Image 7, Text ''a longer text'']"

text \<open>A batch whose image has an identity larger than every text is long, and a batch of
  images only.\<close>

definition inputs_with_image :: "embedding_input list" where
  "inputs_with_image = [Text ''short'', Image 100, Text ''a longer text'']"

definition image_inputs :: "embedding_input list" where
  "image_inputs = [Image 3, Image 8]"

definition sequence_length_error :: exn where
  "sequence_length_error = Exn ValueError
     ''Sequence length must be less than max_position_embeddings (got sequence length: 1200 and max_position_embeddings: 512)''
     None"

definition other_value_error :: exn where
  "other_value_error = Exn ValueError
     ''Invalid input: Sequence length must be less than max_position_embeddings'' None"

definition long_inputs :: "embedding_input list" where
  "long_inputs = [Text ''short'', Text (replicate 5000 CHR ''a'')]"

definition timeout_error :: exn where
  "timeout_error = Exn (Other ''TimeoutError'')
     ''The size of tensor a (514) must match the size of tensor b (512)'' None"

definition not_implemented_error :: exn where
  "not_implemented_error = Exn (Derived ''NotImplementedError'' [RuntimeError])
     ''The size of tensor a (514) must match the size of tensor b (512)'' None"

definition unicode_error :: exn where
  "unicode_error = Exn (Derived ''UnicodeError'' [ValueError])
     ''Sequence length must be less than max_position_embeddings'' None"

section \<open>Properties\<close>

subsection \<open>Auxiliary facts\<close>

lemma startswith_prefix: "startswith s p = prefix p s"
  by (induction s p rule: startswith.induct) auto

lemma str_contains_sublist: "str_contains sub s = sublist sub s"
  by (induction s) (simp_all add: startswith_prefix sublist_Cons_right)

lemma str_contains_append: "str_contains sub (pre @ sub @ post)"
  by (simp add: str_contains_sublist)

lemma digit_value_digit_char: "d < 10 \<Longrightarrow> digit_value (digit_char d) = d"
proof -
  assume "d < 10"
  then have "d \<in> {0, 1, 2, 3, 4, 5, 6, 7, 8, 9}"
    by auto
  then show ?thesis
    by (auto simp add: digit_value_def digit_char_def)
qed

text \<open>\<^const>\<open>str_of_nat\<close> writes the decimal numeral of its argument.\<close>

lemma nat_of_str_of_nat: "nat_of_str (str_of_nat n) = n"
proof (induction n rule: str_of_nat.induct)
  case (1 n)
  show ?case
  proof (cases "n < 10")
    case True
    then show ?thesis
      by (simp add: str_of_nat.simps [of n] nat_of_str_def digit_value_digit_char)
  next
    case False
    then have "nat_of_str (str_of_nat (n div 10)) = n div 10"
      using "1.IH" by simp
    then show ?thesis
      using False
      by (simp add: str_of_nat.simps [of n] nat_of_str_def digit_value_digit_char)
  qed
qed

lemma spec_longest_input_length_Text:
  "spec_longest_input_length (Text s # xs) = max (length s) (spec_longest_input_length xs)"
proof -
  have "insert 0 (insert (length s) (set (string_lengths xs))) =
      insert (length s) (insert 0 (set (string_lengths xs)))"
    by auto
  then show ?thesis
    by (simp add: spec_longest_input_length_def)
qed

lemma spec_longest_input_length_Image:
  "spec_longest_input_length (Image i # xs) = spec_longest_input_length xs"
  by (simp add: spec_longest_input_length_def)

lemma string_lengths_set: "set (string_lengths inputs) = {length s |s. Text s \<in> set inputs}"
  by (induction inputs rule: string_lengths.induct) auto

text \<open>
  The maximum, over a non-empty batch, of any function that gives a text its length and
  an image zero, is the length the spec reports.
\<close>

lemma Max_image_eq_spec:
  assumes "inputs \<noteq> []"
    and "\<And>s. f (Text s) = length s"
    and "\<And>i. f (Image i) = 0"
  shows "Max (f ` set inputs) = spec_longest_input_length inputs"
  using assms(1)
proof (induction inputs)
  case Nil
  then show ?case by simp
next
  case (Cons x xs)
  have step: "max (f x) (spec_longest_input_length xs) = spec_longest_input_length (x # xs)"
    by (cases x)
      (simp_all add: assms(2,3) spec_longest_input_length_Text spec_longest_input_length_Image)
  show ?case
  proof (cases "xs = []")
    case True
    have "spec_longest_input_length [] = 0"
      by (simp add: spec_longest_input_length_def)
    then show ?thesis
      using True step by simp
  next
    case False
    then have "Max (f ` set (x # xs)) = max (f x) (Max (f ` set xs))"
      by simp
    then show ?thesis
      using Cons.IH [OF False] step by simp
  qed
qed

text \<open>The length the spec reports bounds every string input and, unless it is zero, is the
  length of one of them.\<close>

lemma spec_longest_input_length_bounds:
  "(\<forall>s. Text s \<in> set inputs \<longrightarrow> length s \<le> spec_longest_input_length inputs)
   \<and> (spec_longest_input_length inputs = 0 \<or>
       (\<exists>s. Text s \<in> set inputs \<and> length s = spec_longest_input_length inputs))"
proof (induction inputs)
  case Nil
  then show ?case by (simp add: spec_longest_input_length_def)
next
  case (Cons x xs)
  then show ?case
    by (cases x)
      (auto simp add: spec_longest_input_length_Text spec_longest_input_length_Image max_def)
qed

lemma is_digit_digit_char: "d < 10 \<Longrightarrow> is_digit (digit_char d)"
proof -
  assume "d < 10"
  then have "d \<in> {0, 1, 2, 3, 4, 5, 6, 7, 8, 9}"
    by auto
  then show ?thesis
    by (auto simp add: is_digit_def digit_char_def)
qed

lemma digit_char_zero: "d < 10 \<Longrightarrow> (digit_char d = CHR ''0'') = (d = 0)"
proof -
  assume "d < 10"
  then have "d \<in> {0, 1, 2, 3, 4, 5, 6, 7, 8, 9}"
    by auto
  then show ?thesis
    by (auto simp add: digit_char_def)
qed

lemma str_of_nat_not_Nil: "str_of_nat n \<noteq> []"
  by (subst str_of_nat.simps) simp

lemma str_of_nat_digits: "list_all is_digit (str_of_nat n)"
proof (induction n rule: str_of_nat.induct)
  case (1 n)
  then show ?case
    by (subst str_of_nat.simps) (simp add: is_digit_digit_char)
qed

lemma str_of_nat_zero: "str_of_nat n = ''0'' \<Longrightarrow> n = 0"
proof -
  assume "str_of_nat n = ''0''"
  then have "nat_of_str (str_of_nat n) = nat_of_str ''0''"
    by simp
  then have "n = nat_of_str ''0''"
    by (simp only: nat_of_str_of_nat)
  then show ?thesis
    by (simp add: nat_of_str_def digit_value_def)
qed

lemma str_of_nat_canonical: "str_of_nat n = ''0'' \<or> hd (str_of_nat n) \<noteq> CHR ''0''"
proof (induction n rule: str_of_nat.induct)
  case (1 n)
  show ?case
  proof (cases "n < 10")
    case True
    then show ?thesis
      using digit_char_zero [of n]
      by (subst (1 2) str_of_nat.simps) (auto simp add: digit_char_def)
  next
    case False
    then have m: "n div 10 \<noteq> 0"
      by simp
    have "str_of_nat (n div 10) \<noteq> ''0''"
      using str_of_nat_zero [of "n div 10"] m by blast
    then have "hd (str_of_nat (n div 10)) \<noteq> CHR ''0''"
      using "1.IH" False by simp
    then show ?thesis
      using False str_of_nat_not_Nil [of "n div 10"]
      by (subst (2) str_of_nat.simps) simp
  qed
qed

lemma decimal_of_str_of_nat: "decimal_of (str_of_nat n) n"
  using str_of_nat_canonical [of n]
  by (simp add: decimal_of_def str_of_nat_not_Nil str_of_nat_digits nat_of_str_of_nat)

lemma embed_model_raises:
  "get_device_type env (length inputs) = Inr d \<Longrightarrow>
   initialize_model env (model_name self) d (model_cache_dir self) = Inl e \<Longrightarrow>
   embed env self inputs context =
     (Inl e,
      [GetDeviceType (length inputs), InitializeModel (model_name self) d (model_cache_dir self)])"
  by (simp add: embed_def get_embedding_model_def)
lemma py_max_Max: "xs \<noteq> [] \<Longrightarrow> py_max xs = Inr (Max (set xs))"
proof (cases xs)
  case Nil
  assume "xs \<noteq> []"
  with Nil show ?thesis by simp
next
  case (Cons a list)
  then show ?thesis using Max.set_eq_fold [of a list] by simp
qed

lemma longest_input_len_Max:
  "inputs \<noteq> [] \<Longrightarrow> longest_input_len inputs = Inr (Max (input_len ` set inputs))"
  by (simp add: longest_input_len_def py_max_Max)

lemma handle_matches:
  "exceeded_length_matches e \<Longrightarrow> inputs \<noteq> [] \<Longrightarrow>
   handle_exceeded_length_exception self e inputs =
     Inl (Exn EmbeddingException
            (exceeded_length_message (model_name self) (Max (input_len ` set inputs))) (Some e))"
  by (simp add: handle_exceeded_length_exception_def longest_input_len_Max)

lemma handle_no_match:
  "\<not> exceeded_length_matches e \<Longrightarrow> handle_exceeded_length_exception self e inputs = Inl e"
  by (simp add: handle_exceeded_length_exception_def)

lemma handle_raises: "\<exists>x. handle_exceeded_length_exception self e inputs = Inl x"
  by (simp add: handle_exceeded_length_exception_def split: sum.splits)

lemma matches_RuntimeError:
  "exn_type e = RuntimeError \<Longrightarrow> exceeded_length_matches e = runtime_error_predicate e"
  by (simp add: exceeded_length_matches_def EXCEEDED_LENGTH_EXCEPTION_PREDICATE_BY_EXCEPTION_TYPE_def)

lemma matches_ValueError:
  "exn_type e = ValueError \<Longrightarrow> exceeded_length_matches e = value_error_predicate e"
  by (simp add: exceeded_length_matches_def EXCEEDED_LENGTH_EXCEPTION_PREDICATE_BY_EXCEPTION_TYPE_def)

lemma matches_other:
  "exn_type e \<noteq> RuntimeError \<Longrightarrow> exn_type e \<noteq> ValueError \<Longrightarrow> \<not> exceeded_length_matches e"
  by (simp add: exceeded_length_matches_def EXCEEDED_LENGTH_EXCEPTION_PREDICATE_BY_EXCEPTION_TYPE_def)

lemma isinstance_exact: "isinstance e (exn_type e)"
  by (simp add: isinstance_def issubclass.simps)

text \<open>What \<^const>\<open>embed\<close> raises once the model is acquired and \<^verbatim>\<open>encode\<close> has raised.\<close>

lemma embed_encode_raises:
  assumes "get_device_type env (length inputs) = Inr d"
    and "initialize_model env (model_name self) d (model_cache_dir self) = Inr model"
    and "encode model inputs (calculate_prompt_name model context) = Inl e"
  shows "fst (embed env self inputs context) =
     (if isinstance e RuntimeError \<or> isinstance e ValueError
      then (case handle_exceeded_length_exception self e inputs of
              Inl e' \<Rightarrow> Inl e' | Inr u \<Rightarrow> Inl unbound_embeddings_error)
      else Inl e)"
  using assms by (simp add: embed_def get_embedding_model_def Let_def split: sum.splits)

lemma embed_text_nonempty:
  "inputs \<noteq> [] \<Longrightarrow> fst (embed_text env self inputs context) =
     map_sum id (map Vector) (fst (embed env self inputs context))"
  "inputs \<noteq> [] \<Longrightarrow> snd (embed_text env self inputs context) = snd (embed env self inputs context)"
  by (simp_all add: embed_text_def split: prod.splits sum.splits)

text \<open>What \<^const>\<open>embed_text\<close> raises on a non-empty batch once \<^verbatim>\<open>encode\<close> has raised.\<close>

lemma embed_text_encode_raises:
  assumes "inputs \<noteq> []"
    and "get_device_type env (length inputs) = Inr d"
    and "initialize_model env (model_name self) d (model_cache_dir self) = Inr model"
    and "encode model inputs (calculate_prompt_name model context) = Inl e"
  shows "fst (embed_text env self inputs context) =
     (if isinstance e RuntimeError \<or> isinstance e ValueError
      then (if exceeded_length_matches e
            then Inl (Exn EmbeddingException
                   (exceeded_length_message (model_name self) (Max (input_len ` set inputs)))
                   (Some e))
            else Inl e)
      else Inl e)"
  using assms
  by (simp add: embed_text_nonempty(1) embed_encode_raises [OF assms(2-4)]
      handle_matches handle_no_match)

text \<open>The example collaborators return the device, the model, and the model's error.\<close>

lemma example_env_device:
  "n < 10000 \<Longrightarrow> get_device_type (example_env model) n = Inr ''cpu''"
  by (simp add: example_env_def)

lemma example_env_model:
  "initialize_model (example_env model) (model_name example_manager) device
     (model_cache_dir example_manager) = Inr model"
  by (simp add: example_env_def)

lemma raising_model_encode:
  "encode (raising_model x) inputs (calculate_prompt_name (raising_model x) context) = Inl x"
  by (simp add: raising_model_def)

subsection \<open>Prompt selection\<close>

text \<open>
  C1, as amended. If the model's prompts contain \<^verbatim>\<open>"query"\<close> and the context is a query
  context, the selected prompt name is \<^verbatim>\<open>"query"\<close>; in every other case it is the model's
  default prompt name, which may be absent. The selected name is \<^verbatim>\<open>"query"\<close> exactly under
  that condition provided the default prompt name is not itself \<^verbatim>\<open>"query"\<close>.
\<close>

theorem C1_prompt_selection:
  "calculate_prompt_name model context =
     (if QUERY_PROMPT_NAME \<in> dom (prompts model) \<and> is_query_context context
      then Some QUERY_PROMPT_NAME else default_prompt_name model)
   \<and> (default_prompt_name model \<noteq> Some QUERY_PROMPT_NAME \<longrightarrow>
        (calculate_prompt_name model context = Some QUERY_PROMPT_NAME) =
        (QUERY_PROMPT_NAME \<in> dom (prompts model) \<and> is_query_context context))"
  by (simp add: calculate_prompt_name_def)

theorem C1_prompt_selection_witness:
  "calculate_prompt_name (raising_model max_empty_error) query_context = None
   \<and> calculate_prompt_name (query_model\<lparr>default_prompt_name := Some ''passage''\<rparr>) query_context
       = Some ''query''
   \<and> calculate_prompt_name (query_model\<lparr>default_prompt_name := Some ''passage''\<rparr>) indexing_context
       = Some ''passage''"
proof -
  have a: "default_prompt_name (raising_model max_empty_error) \<noteq> Some QUERY_PROMPT_NAME"
    by (simp add: raising_model_def)
  have b: "default_prompt_name (query_model\<lparr>default_prompt_name := Some ''passage''\<rparr>)
      \<noteq> Some QUERY_PROMPT_NAME"
    by (simp add: QUERY_PROMPT_NAME_def)
  show ?thesis
    using C1_prompt_selection [of "raising_model max_empty_error" query_context]
      C1_prompt_selection [of "query_model\<lparr>default_prompt_name := Some ''passage''\<rparr>" query_context]
      C1_prompt_selection [of "query_model\<lparr>default_prompt_name := Some ''passage''\<rparr>" indexing_context]
      a b
    by (simp add: raising_model_def query_model_def query_context_def indexing_context_def
        QUERY_PROMPT_NAME_def)
qed

text \<open>
  C1 as stated fails: a model that declares \<^verbatim>\<open>"query"\<close> and has it as its default prompt
  name is given \<^verbatim>\<open>"query"\<close> in an indexing context as well.
\<close>

theorem C1_query_exactly_when_counterexample:
  "calculate_prompt_name query_model indexing_context = Some QUERY_PROMPT_NAME
   \<and> QUERY_PROMPT_NAME \<in> dom (prompts query_model)
   \<and> is_query_context indexing_context = False
   \<and> (calculate_prompt_name query_model indexing_context = Some QUERY_PROMPT_NAME) \<noteq>
       (QUERY_PROMPT_NAME \<in> dom (prompts query_model) \<and> is_query_context indexing_context)"
  by (simp add: calculate_prompt_name_def query_model_def indexing_context_def QUERY_PROMPT_NAME_def)

subsection \<open>Failure translation\<close>

text \<open>
  C2. On a non-empty batch, when \<^verbatim>\<open>encode\<close> raises an exception of class
  \<^verbatim>\<open>RuntimeError\<close>: if its message contains both \<^verbatim>\<open>"The size of tensor a"\<close> and
  \<^verbatim>\<open>"must match the size of tensor b"\<close>, \<^const>\<open>embed_text\<close> raises the
  \<^verbatim>\<open>EmbeddingException\<close> whose message reports, as a decimal numeral, the maximum of the
  lengths of the string inputs, a non-string input counting as zero; if the message lacks one
  of the two (or both), \<^const>\<open>embed_text\<close> raises the original exception.
\<close>

theorem C2_runtime_error_translation:
  assumes "inputs \<noteq> []"
    and "get_device_type env (length inputs) = Inr d"
    and "initialize_model env (model_name self) d (model_cache_dir self) = Inr model"
    and "encode model inputs (calculate_prompt_name model context) = Inl e"
    and "exn_type e = RuntimeError"
  shows "decimal_of (str_of_nat (spec_longest_input_length inputs)) (spec_longest_input_length inputs)
     \<and> fst (embed_text env self inputs context) =
     (if str_contains ''The size of tensor a'' (exn_str e) \<and>
         str_contains ''must match the size of tensor b'' (exn_str e)
      then Inl (Exn EmbeddingException
             (''Model '' @ model_name self @
              '' failed to encode inputs - input was too long. Try shortening the input text.'' @
              [CHR 0x0A] @ ''Longest input length: '' @
              str_of_nat (spec_longest_input_length inputs) @ '' chars'')
             (Some e))
      else Inl e)"
proof -
  have "exceeded_length_matches e =
      (str_contains ''The size of tensor a'' (exn_str e) \<and>
       str_contains ''must match the size of tensor b'' (exn_str e))"
    using assms(5) by (simp add: matches_RuntimeError runtime_error_predicate_def)
  moreover have "isinstance e RuntimeError"
    using isinstance_exact [of e] assms(5) by simp
  moreover have "Max (input_len ` set inputs) = spec_longest_input_length inputs"
    by (rule Max_image_eq_spec [OF assms(1)]) simp_all
  then have "exceeded_length_message (model_name self) (Max (input_len ` set inputs)) =
      ''Model '' @ model_name self @
      '' failed to encode inputs - input was too long. Try shortening the input text.'' @
      [CHR 0x0A] @ ''Longest input length: '' @
      str_of_nat (spec_longest_input_length inputs) @ '' chars''"
    by (simp add: exceeded_length_message_def)
  ultimately have "fst (embed_text env self inputs context) =
     (if str_contains ''The size of tensor a'' (exn_str e) \<and>
         str_contains ''must match the size of tensor b'' (exn_str e)
      then Inl (Exn EmbeddingException
             (''Model '' @ model_name self @
              '' failed to encode inputs - input was too long. Try shortening the input text.'' @
              [CHR 0x0A] @ ''Longest input length: '' @
              str_of_nat (spec_longest_input_length inputs) @ '' chars'')
             (Some e))
      else Inl e)"
    using embed_text_encode_raises [OF assms(1-4)] by simp
  then show ?thesis
    using decimal_of_str_of_nat by blast
qed

theorem C2_runtime_error_translation_witness:
  "fst (embed_text (example_env (raising_model tensor_size_error)) example_manager
         inputs_with_image indexing_context) =
     Inl (Exn EmbeddingException
       (''Model all-MiniLM-L6-v2 failed to encode inputs - input was too long. Try shortening the input text.''
        @ [CHR 0x0A] @ ''Longest input length: 13 chars'')
       (Some tensor_size_error))
   \<and> fst (embed_text (example_env (raising_model tensor_a_only_error)) example_manager
         inputs_with_image indexing_context) = Inl tensor_a_only_error
   \<and> decimal_of ''13'' 13
   \<and> spec_longest_input_length inputs_with_image = 13"
proof -
  have ne: "inputs_with_image \<noteq> []"
    by (simp add: inputs_with_image_def)
  have dev: "get_device_type (example_env (raising_model x)) (length inputs_with_image) = Inr ''cpu''"
    for x
    by (simp add: example_env_device inputs_with_image_def)
  note ini = example_env_model and enc = raising_model_encode
  have len: "spec_longest_input_length inputs_with_image = 13"
    by (simp add: inputs_with_image_def spec_longest_input_length_def)
  have s13: "str_of_nat 13 = ''13''"
    by (simp add: str_of_nat.simps digit_char_def)
  have a: "exn_type tensor_size_error = RuntimeError"
    by (simp add: tensor_size_error_def)
  have b: "exn_type tensor_a_only_error = RuntimeError"
    by (simp add: tensor_a_only_error_def)
  have ca: "str_contains ''The size of tensor a'' (exn_str tensor_size_error)"
    "str_contains ''must match the size of tensor b'' (exn_str tensor_size_error)"
    by (simp_all add: tensor_size_error_def)
  have cb: "str_contains ''The size of tensor a'' (exn_str tensor_a_only_error)"
    "\<not> str_contains ''must match the size of tensor b'' (exn_str tensor_a_only_error)"
    by (simp_all add: tensor_a_only_error_def)
  have l: "length inputs_with_image = 3"
    by (simp add: inputs_with_image_def)
  have ev: "longest_input_len inputs_with_image = Inr 13"
    by (simp add: longest_input_len_def inputs_with_image_def)
  have run: "fst (embed_text (example_env (raising_model tensor_size_error)) example_manager
         inputs_with_image indexing_context) =
     Inl (Exn EmbeddingException
       (''Model all-MiniLM-L6-v2 failed to encode inputs - input was too long. Try shortening the input text.''
        @ [CHR 0x0A] @ ''Longest input length: 13 chars'')
       (Some tensor_size_error))"
    using ne ca a isinstance_exact [of tensor_size_error]
    by (simp add: embed_text_def embed_def get_embedding_model_def Let_def l example_env_def
        raising_model_def handle_exceeded_length_exception_def matches_RuntimeError
        runtime_error_predicate_def ev exceeded_length_message_def s13 example_manager_def)
  have d13: "decimal_of ''13'' 13"
    by (simp add: decimal_of_def is_digit_def nat_of_str_def digit_value_def)
  show ?thesis
    using C2_runtime_error_translation [OF ne dev ini enc a]
      C2_runtime_error_translation [OF ne dev ini enc b] run d13
    by (simp add: ca cb len s13 example_manager_def)
qed

text \<open>
  C3. On a non-empty batch, when \<^verbatim>\<open>encode\<close> raises an exception of class
  \<^verbatim>\<open>ValueError\<close>: if its message begins with
  \<^verbatim>\<open>"Sequence length must be less than max_position_embeddings"\<close>, \<^const>\<open>embed_text\<close>
  raises the \<^verbatim>\<open>EmbeddingException\<close>; otherwise it raises the original exception.
\<close>

theorem C3_value_error_translation:
  assumes "inputs \<noteq> []"
    and "get_device_type env (length inputs) = Inr d"
    and "initialize_model env (model_name self) d (model_cache_dir self) = Inr model"
    and "encode model inputs (calculate_prompt_name model context) = Inl e"
    and "exn_type e = ValueError"
  shows "fst (embed_text env self inputs context) =
     (if startswith (exn_str e) ''Sequence length must be less than max_position_embeddings''
      then Inl (Exn EmbeddingException
             (exceeded_length_message (model_name self) (Max (input_len ` set inputs)))
             (Some e))
      else Inl e)"
proof -
  have "exceeded_length_matches e =
      startswith (exn_str e) ''Sequence length must be less than max_position_embeddings''"
    using assms(5) by (simp add: matches_ValueError value_error_predicate_def)
  moreover have "isinstance e ValueError"
    using isinstance_exact [of e] assms(5) by simp
  ultimately show ?thesis
    using embed_text_encode_raises [OF assms(1-4)] by simp
qed

theorem C3_value_error_translation_witness:
  "fst (embed_text (example_env (raising_model sequence_length_error)) example_manager long_inputs
         indexing_context) =
     Inl (Exn EmbeddingException
       (''Model all-MiniLM-L6-v2 failed to encode inputs - input was too long. Try shortening the input text.''
        @ [CHR 0x0A] @ ''Longest input length: 5000 chars'')
       (Some sequence_length_error))
   \<and> fst (embed_text (example_env (raising_model other_value_error)) example_manager long_inputs
         indexing_context) = Inl other_value_error"
proof -
  have ne: "long_inputs \<noteq> []"
    by (simp add: long_inputs_def)
  have dev: "get_device_type (example_env (raising_model x)) (length long_inputs) = Inr ''cpu''" for x
    by (simp add: example_env_device long_inputs_def)
  note ini = example_env_model and enc = raising_model_encode
  have len: "Max (input_len ` set long_inputs) = 5000"
    by (simp add: long_inputs_def)
  have s5000: "str_of_nat 5000 = ''5000''"
    by (simp add: str_of_nat.simps digit_char_def)
  have a: "exn_type sequence_length_error = ValueError"
    by (simp add: sequence_length_error_def)
  have b: "exn_type other_value_error = ValueError"
    by (simp add: other_value_error_def)
  have ca: "startswith (exn_str sequence_length_error)
      ''Sequence length must be less than max_position_embeddings''"
    by (simp add: sequence_length_error_def)
  have cb: "\<not> startswith (exn_str other_value_error)
      ''Sequence length must be less than max_position_embeddings''"
    by (simp add: other_value_error_def)
  show ?thesis
    using C3_value_error_translation [OF ne dev ini enc a]
      C3_value_error_translation [OF ne dev ini enc b]
    by (simp add: ca cb len s5000 exceeded_length_message_def example_manager_def)
qed

subsection \<open>No error is swallowed\<close>

text \<open>
  C4. On a non-empty batch, an exception raised by \<^verbatim>\<open>encode\<close> whose class is neither
  \<^verbatim>\<open>RuntimeError\<close> nor \<^verbatim>\<open>ValueError\<close> is raised by \<^const>\<open>embed_text\<close> as it is;
  whatever \<^verbatim>\<open>encode\<close> raises, \<^const>\<open>embed_text\<close> raises that exception or its
  translation. The failure handler never returns normally, and on a non-empty batch it raises
  the exception it was given or its translation.
\<close>

theorem C4_errors_never_swallowed:
  "(inputs \<noteq> [] \<and> get_device_type env (length inputs) = Inr d \<and>
    initialize_model env (model_name self) d (model_cache_dir self) = Inr model \<and>
    encode model inputs (calculate_prompt_name model context) = Inl e \<longrightarrow>
      (exn_type e \<noteq> RuntimeError \<and> exn_type e \<noteq> ValueError \<longrightarrow>
         fst (embed_text env self inputs context) = Inl e) \<and>
      (fst (embed_text env self inputs context) = Inl e \<or>
       fst (embed_text env self inputs context) =
         Inl (Exn EmbeddingException
               (exceeded_length_message (model_name self) (Max (input_len ` set inputs)))
               (Some e))))
   \<and> (\<exists>raised. handle_exceeded_length_exception self exception batch = Inl raised)
   \<and> (batch \<noteq> [] \<longrightarrow>
        handle_exceeded_length_exception self exception batch = Inl exception \<or>
        handle_exceeded_length_exception self exception batch =
          Inl (Exn EmbeddingException
                (exceeded_length_message (model_name self) (Max (input_len ` set batch)))
                (Some exception)))"
proof (intro conjI impI)
  assume h: "inputs \<noteq> [] \<and> get_device_type env (length inputs) = Inr d \<and>
    initialize_model env (model_name self) d (model_cache_dir self) = Inr model \<and>
    encode model inputs (calculate_prompt_name model context) = Inl e"
  then have r: "fst (embed_text env self inputs context) =
     (if isinstance e RuntimeError \<or> isinstance e ValueError
      then (if exceeded_length_matches e
            then Inl (Exn EmbeddingException
                   (exceeded_length_message (model_name self) (Max (input_len ` set inputs)))
                   (Some e))
            else Inl e)
      else Inl e)"
    using embed_text_encode_raises [of inputs env d self model "context" e] by simp
  show "fst (embed_text env self inputs context) = Inl e"
    if "exn_type e \<noteq> RuntimeError \<and> exn_type e \<noteq> ValueError"
    using that r matches_other [of e] by simp
  show "fst (embed_text env self inputs context) = Inl e \<or>
       fst (embed_text env self inputs context) =
         Inl (Exn EmbeddingException
               (exceeded_length_message (model_name self) (Max (input_len ` set inputs)))
               (Some e))"
    using r by simp
next
  show "\<exists>raised. handle_exceeded_length_exception self exception batch = Inl raised"
    by (rule handle_raises)
next
  assume "batch \<noteq> []"
  then show "handle_exceeded_length_exception self exception batch = Inl exception \<or>
        handle_exceeded_length_exception self exception batch =
          Inl (Exn EmbeddingException
                (exceeded_length_message (model_name self) (Max (input_len ` set batch)))
                (Some exception))"
    using handle_matches [of exception batch self] handle_no_match [of exception self batch]
    by blast
qed

theorem C4_errors_never_swallowed_witness:
  "fst (embed_text (example_env (raising_model timeout_error)) example_manager mixed_inputs
         query_context) = Inl timeout_error
   \<and> runtime_error_predicate timeout_error
   \<and> handle_exceeded_length_exception example_manager timeout_error mixed_inputs = Inl timeout_error"
proof -
  have ne: "mixed_inputs \<noteq> []"
    by (simp add: mixed_inputs_def)
  have dev: "get_device_type (example_env (raising_model x)) (length mixed_inputs) = Inr ''cpu''" for x
    by (simp add: example_env_device mixed_inputs_def)
  note ini = example_env_model and enc = raising_model_encode
  have ty: "exn_type timeout_error \<noteq> RuntimeError \<and> exn_type timeout_error \<noteq> ValueError"
    by (simp add: timeout_error_def)
  have p: "runtime_error_predicate timeout_error"
    by (simp add: runtime_error_predicate_def timeout_error_def)
  have neq: "Exn EmbeddingException m (Some timeout_error) \<noteq> timeout_error" for m
    by (simp add: timeout_error_def)
  have nm: "handle_exceeded_length_exception example_manager timeout_error mixed_inputs \<noteq>
      Inl (Exn EmbeddingException m (Some timeout_error))" for m
    using ty by (simp add: handle_no_match matches_other timeout_error_def)
  show ?thesis
    using C4_errors_never_swallowed [of mixed_inputs "example_env (raising_model timeout_error)"
        "''cpu''" example_manager "raising_model timeout_error" query_context timeout_error
        timeout_error mixed_inputs]
      ne dev ini enc ty p nm
    by simp
qed

lemma handle_empty_batch:
  "exceeded_length_matches e \<Longrightarrow> handle_exceeded_length_exception self e [] = Inl max_empty_error"
  by (simp add: handle_exceeded_length_exception_def longest_input_len_def)

subsection \<open>The translated error\<close>

text \<open>
  C5. Whenever the failure handler translates (it raises an \<^verbatim>\<open>EmbeddingException\<close> that
  is not the exception it was given), the message of the raised exception contains the model
  name and the decimal numeral of the length of the longest input, that length being the
  maximum over the batch of the lengths of the string inputs, a non-string input counting as
  zero; and the cause of the raised exception is the exception that was caught.
\<close>

theorem C5_translated_error_contents:
  assumes "handle_exceeded_length_exception self exception inputs = Inl raised"
    and "raised \<noteq> exception"
    and "exn_type raised = EmbeddingException"
  shows "decimal_of (str_of_nat (spec_longest_input_length inputs)) (spec_longest_input_length inputs)
     \<and> raised = Exn EmbeddingException
         (''Model '' @ model_name self @
          '' failed to encode inputs - input was too long. Try shortening the input text.'' @
          [CHR 0x0A] @ ''Longest input length: '' @
          str_of_nat (spec_longest_input_length inputs) @ '' chars'')
         (Some exception)
     \<and> exn_cause raised = Some exception
     \<and> sublist (model_name self) (exn_str raised)
     \<and> sublist (str_of_nat (spec_longest_input_length inputs)) (exn_str raised)
     \<and> sublist (''Longest input length: '' @ str_of_nat (spec_longest_input_length inputs) @ '' chars'')
          (exn_str raised)
     \<and> str_contains (model_name self) (exn_str raised)
     \<and> str_contains (str_of_nat (spec_longest_input_length inputs)) (exn_str raised)"
proof -
  let ?digits = "str_of_nat (spec_longest_input_length inputs)"
  let ?head = "''Model '' @ model_name self @
      '' failed to encode inputs - input was too long. Try shortening the input text.'' @
      [CHR 0x0A]"
  let ?message = "''Model '' @ model_name self @
      '' failed to encode inputs - input was too long. Try shortening the input text.'' @
      [CHR 0x0A] @ ''Longest input length: '' @ ?digits @ '' chars''"
  have m: "exceeded_length_matches exception"
    using assms(1,2) handle_no_match [of exception self inputs] by auto
  have ne: "inputs \<noteq> []"
  proof
    assume "inputs = []"
    then have "raised = max_empty_error"
      using assms(1) handle_empty_batch [OF m, of self] by simp
    then show False
      using assms(3) by (simp add: max_empty_error_def)
  qed
  have "raised = Exn EmbeddingException
      (exceeded_length_message (model_name self) (Max (input_len ` set inputs))) (Some exception)"
    using assms(1) handle_matches [OF m ne, of self] by simp
  moreover have "Max (input_len ` set inputs) = spec_longest_input_length inputs"
    by (rule Max_image_eq_spec [OF ne]) simp_all
  ultimately have r: "raised = Exn EmbeddingException ?message (Some exception)"
    by (simp add: exceeded_length_message_def)
  have s: "exn_str raised = ?message"
    by (simp only: r exn.sel)
  have n: "sublist (model_name self) ?message"
    by (rule sublist_appendI)
  have "?message = (?head @ ''Longest input length: '') @ ?digits @ '' chars''"
    by (simp only: append_assoc)
  then have d: "sublist ?digits ?message"
    using sublist_appendI [of ?digits "?head @ ''Longest input length: ''" "'' chars''"]
    by (simp only:)
  have "?message = ?head @ (''Longest input length: '' @ ?digits @ '' chars'') @ []"
    by (simp only: append_assoc append_Nil2)
  then have l: "sublist (''Longest input length: '' @ ?digits @ '' chars'') ?message"
    using sublist_appendI [of "''Longest input length: '' @ ?digits @ '' chars''" ?head "[]"]
    by (simp only:)
  show ?thesis
  proof (intro conjI)
    show "decimal_of ?digits (spec_longest_input_length inputs)"
      by (rule decimal_of_str_of_nat)
    show "raised = Exn EmbeddingException ?message (Some exception)"
      by (rule r)
    show "exn_cause raised = Some exception"
      by (simp only: r exn.sel)
    show "sublist (model_name self) (exn_str raised)"
      unfolding s by (rule n)
    show "sublist ?digits (exn_str raised)"
      unfolding s by (rule d)
    show "sublist (''Longest input length: '' @ ?digits @ '' chars'') (exn_str raised)"
      unfolding s by (rule l)
    show "str_contains (model_name self) (exn_str raised)"
      unfolding s str_contains_sublist by (rule n)
    show "str_contains ?digits (exn_str raised)"
      unfolding s str_contains_sublist by (rule d)
  qed
qed

theorem C5_translated_error_contents_witness:
  "handle_exceeded_length_exception example_manager tensor_size_error inputs_with_image =
     Inl (Exn EmbeddingException
       (''Model all-MiniLM-L6-v2 failed to encode inputs - input was too long. Try shortening the input text.''
        @ [CHR 0x0A] @ ''Longest input length: 13 chars'')
       (Some tensor_size_error))
   \<and> handle_exceeded_length_exception example_manager sequence_length_error image_inputs =
     Inl (Exn EmbeddingException
       (''Model all-MiniLM-L6-v2 failed to encode inputs - input was too long. Try shortening the input text.''
        @ [CHR 0x0A] @ ''Longest input length: 0 chars'')
       (Some sequence_length_error))
   \<and> spec_longest_input_length inputs_with_image = 13
   \<and> spec_longest_input_length image_inputs = 0
   \<and> decimal_of ''13'' 13 \<and> decimal_of ''0'' 0"
proof -
  have ne: "inputs_with_image \<noteq> []" "image_inputs \<noteq> []"
    by (simp_all add: inputs_with_image_def image_inputs_def)
  have m: "exceeded_length_matches tensor_size_error"
    by (simp add: matches_RuntimeError runtime_error_predicate_def tensor_size_error_def)
  have m': "exceeded_length_matches sequence_length_error"
    by (simp add: matches_ValueError value_error_predicate_def sequence_length_error_def)
  have len: "spec_longest_input_length inputs_with_image = 13"
    "spec_longest_input_length image_inputs = 0"
    by (simp_all add: inputs_with_image_def image_inputs_def spec_longest_input_length_def)
  have digits: "str_of_nat 13 = ''13''" "str_of_nat 0 = ''0''"
    by (simp_all add: str_of_nat.simps digit_char_def)
  have ev: "longest_input_len inputs_with_image = Inr 13" "longest_input_len image_inputs = Inr 0"
    by (simp_all add: longest_input_len_def inputs_with_image_def image_inputs_def)
  have r: "handle_exceeded_length_exception example_manager tensor_size_error inputs_with_image =
     Inl (Exn EmbeddingException
       (''Model all-MiniLM-L6-v2 failed to encode inputs - input was too long. Try shortening the input text.''
        @ [CHR 0x0A] @ ''Longest input length: 13 chars'')
       (Some tensor_size_error))"
    using m
    by (simp add: handle_exceeded_length_exception_def ev exceeded_length_message_def digits
        example_manager_def)
  have d: "Exn EmbeddingException
       (''Model all-MiniLM-L6-v2 failed to encode inputs - input was too long. Try shortening the input text.''
        @ [CHR 0x0A] @ ''Longest input length: 13 chars'')
       (Some tensor_size_error) \<noteq> tensor_size_error"
    by (simp add: tensor_size_error_def)
  have r': "handle_exceeded_length_exception example_manager sequence_length_error image_inputs =
     Inl (Exn EmbeddingException
       (''Model all-MiniLM-L6-v2 failed to encode inputs - input was too long. Try shortening the input text.''
        @ [CHR 0x0A] @ ''Longest input length: 0 chars'')
       (Some sequence_length_error))"
    using m'
    by (simp add: handle_exceeded_length_exception_def ev exceeded_length_message_def digits
        example_manager_def)
  have d': "Exn EmbeddingException
       (''Model all-MiniLM-L6-v2 failed to encode inputs - input was too long. Try shortening the input text.''
        @ [CHR 0x0A] @ ''Longest input length: 0 chars'')
       (Some sequence_length_error) \<noteq> sequence_length_error"
    by (simp add: sequence_length_error_def)
  have dec: "decimal_of ''13'' 13" "decimal_of ''0'' 0"
    by (simp_all add: decimal_of_def is_digit_def nat_of_str_def digit_value_def)
  show ?thesis
    using C5_translated_error_contents [OF r d] C5_translated_error_contents [OF r' d'] r r' dec
    by (simp add: len digits example_manager_def)
qed

subsection \<open>The result of \<^const>\<open>embed_text\<close>\<close>

text \<open>
  C6. On an empty batch, in every context, \<^const>\<open>embed_text\<close> returns the empty list and
  makes no call at all: none to the device selector, none to the model cache, none to
  \<^verbatim>\<open>encode\<close>.
\<close>

theorem C6_empty_input:
  "embed_text env self [] context = (Inr [], [])"
  by (simp add: embed_text_def)

theorem C6_empty_input_witness:
  "embed_text (example_env query_model) example_manager [] query_context = (Inr [], [])
   \<and> embed_text (example_env (raising_model tensor_size_error)) example_manager [] indexing_context
       = (Inr [], [])"
  using C6_empty_input [of "example_env query_model" example_manager query_context]
    C6_empty_input [of "example_env (raising_model tensor_size_error)" example_manager indexing_context]
  by simp

text \<open>
  C7. On a non-empty batch of \<open>N\<close> inputs, if \<^verbatim>\<open>encode\<close> returns one row per input, each
  of the length that \<^const>\<open>calculate_length\<close> returns, then \<^const>\<open>embed_text\<close> returns
  \<open>N\<close> vectors, the \<open>i\<close>-th wrapping the \<open>i\<close>-th row, each of the length that
  \<^const>\<open>calculate_length\<close> returns.
\<close>

theorem C7_one_vector_per_input:
  assumes "inputs \<noteq> []"
    and "get_device_type env (length inputs) = Inr d"
    and "initialize_model env (model_name self) d (model_cache_dir self) = Inr model"
    and "encode model inputs (calculate_prompt_name model context) = Inr rows"
    and "length rows = length inputs"
    and "\<forall>row \<in> set rows. int (length row) = n"
    and "fst (calculate_length env self) = Inr n"
  shows "\<exists>vectors. fst (embed_text env self inputs context) = Inr vectors
     \<and> vectors = map Vector rows
     \<and> length vectors = length inputs
     \<and> (\<forall>i < length inputs. vectors ! i = Vector (rows ! i))
     \<and> (\<forall>v \<in> set vectors. fst (calculate_length env self) = Inr (int (length (vector_value v))))"
proof -
  have "fst (embed_text env self inputs context) = Inr (map Vector rows)"
    using assms(1-4)
    by (simp add: embed_text_def embed_def get_embedding_model_def Let_def)
  moreover have "length (map Vector rows) = length inputs"
    using assms(5) by simp
  moreover have "\<forall>i < length inputs. map Vector rows ! i = Vector (rows ! i)"
    using assms(5) by simp
  moreover have "\<forall>v \<in> set (map Vector rows).
      fst (calculate_length env self) = Inr (int (length (vector_value v)))"
    using assms(6,7) by auto
  ultimately show ?thesis
    by blast
qed

theorem C7_one_vector_per_input_witness:
  "fst (embed_text (example_env query_model) example_manager mixed_inputs query_context) =
     Inr [Vector [5, 1 / 2], Vector [0, 1 / 2], Vector [13, 1 / 2]]
   \<and> fst (calculate_length (example_env query_model) example_manager) = Inr 2"
proof -
  have ne: "mixed_inputs \<noteq> []"
    by (simp add: mixed_inputs_def)
  have dev: "get_device_type (example_env query_model) (length mixed_inputs) = Inr ''cpu''"
    by (simp add: example_env_device mixed_inputs_def)
  have enc: "encode query_model mixed_inputs (calculate_prompt_name query_model query_context) =
      Inr [[5, 1 / 2], [0, 1 / 2], [13, 1 / 2]]"
    by (simp add: query_model_def mixed_inputs_def)
  have len: "length [[5, 1 / 2], [0, 1 / 2], [13, 1 / 2 :: real]] = length mixed_inputs"
    by (simp add: mixed_inputs_def)
  have rows: "\<forall>row \<in> set [[5, 1 / 2], [0, 1 / 2], [13, 1 / 2 :: real]]. int (length row) = 2"
    by simp
  have cl: "fst (calculate_length (example_env query_model) example_manager) = Inr 2"
    by (simp add: calculate_length_def example_env_def)
  show ?thesis
    using C7_one_vector_per_input [OF ne dev example_env_model enc len rows cl] cl
    by auto
qed

lemma embed_device_raises:
  "get_device_type env (length inputs) = Inl e \<Longrightarrow>
   embed env self inputs context = (Inl e, [GetDeviceType (length inputs)])"
  by (simp add: embed_def get_embedding_model_def)

subsection \<open>The calls made\<close>

text \<open>
  C8. The batch-embedding primitive \<^const>\<open>embed\<close> calls the device selector once, first, with
  the number of inputs; when the selector returns a device, the next call, and the only one to
  the model cache, asks for the model by the configured model name, that device and the
  configured cache directory, and what the model cache answers is the handle acquired: it is
  what \<^const>\<open>get_embedding_model\<close> returns, its \<^verbatim>\<open>encode\<close> is the one called next, and
  when the model cache raises, \<^const>\<open>embed\<close> raises the same and calls nothing more. On a
  non-empty batch the calls of \<^const>\<open>embed_text\<close> are those of \<^const>\<open>embed\<close>.
  \<^const>\<open>calculate_length\<close> is the model cache's answer for the model name and the cache
  directory, and its only call is that one: \<^verbatim>\<open>encode\<close> is not called.
\<close>

theorem C8_device_and_model_acquisition:
  "(\<exists>rest. snd (embed env self inputs context) = GetDeviceType (length inputs) # rest
       \<and> (\<forall>n. GetDeviceType n \<notin> set rest))
   \<and> (get_device_type env (length inputs) = Inr d \<longrightarrow>
        (\<exists>rest. snd (embed env self inputs context) =
            GetDeviceType (length inputs) #
            InitializeModel (model_name self) d (model_cache_dir self) # rest
          \<and> (\<forall>name device dir. InitializeModel name device dir \<notin> set rest)))
   \<and> (get_device_type env (length inputs) = Inl e \<longrightarrow>
        embed env self inputs context = (Inl e, [GetDeviceType (length inputs)]))
   \<and> (inputs \<noteq> [] \<longrightarrow>
        snd (embed_text env self inputs context) = snd (embed env self inputs context))
   \<and> calculate_length env self =
        (cache_calculate_length env (model_name self) (model_cache_dir self),
         [CalculateLength (model_name self) (model_cache_dir self)])
   \<and> (get_device_type env (length inputs) = Inr d \<longrightarrow>
        get_embedding_model env self (length inputs) =
          (initialize_model env (model_name self) d (model_cache_dir self),
           [GetDeviceType (length inputs),
            InitializeModel (model_name self) d (model_cache_dir self)]))
   \<and> (get_device_type env (length inputs) = Inr d \<and>
       initialize_model env (model_name self) d (model_cache_dir self) = Inl e \<longrightarrow>
        embed env self inputs context =
          (Inl e,
           [GetDeviceType (length inputs),
            InitializeModel (model_name self) d (model_cache_dir self)]))
   \<and> (get_device_type env (length inputs) = Inr d \<and>
       initialize_model env (model_name self) d (model_cache_dir self) = Inr model \<longrightarrow>
        (\<exists>rest. snd (embed env self inputs context) =
            GetDeviceType (length inputs) #
            InitializeModel (model_name self) d (model_cache_dir self) #
            Encode inputs (calculate_prompt_name model context) # rest
          \<and> (\<forall>batch prompt_name. Encode batch prompt_name \<notin> set rest)))
   \<and> (get_device_type env (length inputs) = Inr d \<and>
       initialize_model env (model_name self) d (model_cache_dir self) = Inr model \<and>
       encode model inputs (calculate_prompt_name model context) = Inr rows \<longrightarrow>
        embed env self inputs context =
          (Inr rows,
           [GetDeviceType (length inputs),
            InitializeModel (model_name self) d (model_cache_dir self),
            Encode inputs (calculate_prompt_name model context)]))"
proof (intro conjI impI)
  show "\<exists>rest. snd (embed env self inputs context) = GetDeviceType (length inputs) # rest
       \<and> (\<forall>n. GetDeviceType n \<notin> set rest)"
    by (auto simp add: embed_def get_embedding_model_def Let_def split: sum.splits)
  show "\<exists>rest. snd (embed env self inputs context) =
            GetDeviceType (length inputs) #
            InitializeModel (model_name self) d (model_cache_dir self) # rest
          \<and> (\<forall>name device dir. InitializeModel name device dir \<notin> set rest)"
    if "get_device_type env (length inputs) = Inr d"
    using that by (auto simp add: embed_def get_embedding_model_def Let_def split: sum.splits)
  show "embed env self inputs context = (Inl e, [GetDeviceType (length inputs)])"
    if "get_device_type env (length inputs) = Inl e"
    using that by (rule embed_device_raises)
  show "snd (embed_text env self inputs context) = snd (embed env self inputs context)"
    if "inputs \<noteq> []"
    using that by (rule embed_text_nonempty(2))
  show "calculate_length env self =
        (cache_calculate_length env (model_name self) (model_cache_dir self),
         [CalculateLength (model_name self) (model_cache_dir self)])"
    by (simp add: calculate_length_def)
  show "get_embedding_model env self (length inputs) =
          (initialize_model env (model_name self) d (model_cache_dir self),
           [GetDeviceType (length inputs),
            InitializeModel (model_name self) d (model_cache_dir self)])"
    if "get_device_type env (length inputs) = Inr d"
    using that by (simp add: get_embedding_model_def)
  show "embed env self inputs context =
          (Inl e,
           [GetDeviceType (length inputs),
            InitializeModel (model_name self) d (model_cache_dir self)])"
    if "get_device_type env (length inputs) = Inr d \<and>
       initialize_model env (model_name self) d (model_cache_dir self) = Inl e"
    using that embed_model_raises [of env inputs d self e "context"] by simp
  show "\<exists>rest. snd (embed env self inputs context) =
            GetDeviceType (length inputs) #
            InitializeModel (model_name self) d (model_cache_dir self) #
            Encode inputs (calculate_prompt_name model context) # rest
          \<and> (\<forall>batch prompt_name. Encode batch prompt_name \<notin> set rest)"
    if "get_device_type env (length inputs) = Inr d \<and>
       initialize_model env (model_name self) d (model_cache_dir self) = Inr model"
    using that by (auto simp add: embed_def get_embedding_model_def Let_def split: sum.splits)
  show "embed env self inputs context =
          (Inr rows,
           [GetDeviceType (length inputs),
            InitializeModel (model_name self) d (model_cache_dir self),
            Encode inputs (calculate_prompt_name model context)])"
    if "get_device_type env (length inputs) = Inr d \<and>
       initialize_model env (model_name self) d (model_cache_dir self) = Inr model \<and>
       encode model inputs (calculate_prompt_name model context) = Inr rows"
    using that by (simp add: embed_def get_embedding_model_def Let_def)
qed

theorem C8_device_and_model_acquisition_witness:
  "take 2 (snd (embed (example_env query_model) example_manager mixed_inputs query_context)) =
     [GetDeviceType 3, InitializeModel ''all-MiniLM-L6-v2'' ''cpu'' ''/cache'']
   \<and> snd (embed_text (example_env query_model) example_manager mixed_inputs query_context) =
       snd (embed (example_env query_model) example_manager mixed_inputs query_context)
   \<and> calculate_length (example_env query_model) example_manager =
       (Inr 2, [CalculateLength ''all-MiniLM-L6-v2'' ''/cache''])
   \<and> get_embedding_model (example_env query_model) example_manager 3 =
       (Inr query_model,
        [GetDeviceType 3, InitializeModel ''all-MiniLM-L6-v2'' ''cpu'' ''/cache''])
   \<and> embed (example_env query_model) example_manager mixed_inputs query_context =
       (Inr [[5, 1 / 2], [0, 1 / 2], [13, 1 / 2]],
        [GetDeviceType 3, InitializeModel ''all-MiniLM-L6-v2'' ''cpu'' ''/cache'',
         Encode mixed_inputs (Some ''query'')])"
proof -
  have ne: "mixed_inputs \<noteq> []"
    by (simp add: mixed_inputs_def)
  have dev: "get_device_type (example_env query_model) (length mixed_inputs) = Inr ''cpu''"
    by (simp add: example_env_device mixed_inputs_def)
  have l: "length mixed_inputs = 3"
    by (simp add: mixed_inputs_def)
  have c: "cache_calculate_length (example_env query_model) ''all-MiniLM-L6-v2'' ''/cache'' = Inr 2"
    by (simp add: example_env_def)
  have ini: "initialize_model (example_env query_model) ''all-MiniLM-L6-v2'' ''cpu'' ''/cache'' =
      Inr query_model"
    by (simp add: example_env_def)
  have pn: "calculate_prompt_name query_model query_context = Some ''query''"
    by (simp add: calculate_prompt_name_def query_model_def query_context_def QUERY_PROMPT_NAME_def)
  have enc: "encode query_model mixed_inputs (Some ''query'') =
      Inr [[5, 1 / 2], [0, 1 / 2], [13, 1 / 2]]"
    by (simp add: query_model_def mixed_inputs_def)
  have run: "get_embedding_model (example_env query_model) example_manager 3 =
       (Inr query_model,
        [GetDeviceType 3, InitializeModel ''all-MiniLM-L6-v2'' ''cpu'' ''/cache''])"
    by (simp add: get_embedding_model_def example_env_def example_manager_def)
  show ?thesis
    using C8_device_and_model_acquisition [of "example_env query_model" example_manager
        mixed_inputs query_context "''cpu''" max_empty_error query_model
        "[[5, 1 / 2], [0, 1 / 2], [13, 1 / 2]]"] ne dev run
    by (auto simp add: l c ini pn enc example_manager_def)
qed

subsection \<open>Subclasses of the two error classes\<close>

text \<open>
  C9. For an exception whose class is a proper subclass of \<^verbatim>\<open>RuntimeError\<close> or of
  \<^verbatim>\<open>ValueError\<close>, the predicate table has no entry (it is looked up by the exact class), so
  the failure handler raises the exception it was given, whatever its message; and
  \<^const>\<open>embed_text\<close>, which catches it and calls the handler, raises it as it is.
\<close>

theorem C9_subclass_not_translated:
  assumes "exn_type e \<noteq> RuntimeError" and "exn_type e \<noteq> ValueError"
    and "issubclass (exn_type e) RuntimeError \<or> issubclass (exn_type e) ValueError"
  shows "EXCEEDED_LENGTH_EXCEPTION_PREDICATE_BY_EXCEPTION_TYPE (exn_type e) = None
     \<and> handle_exceeded_length_exception self e batch = Inl e
     \<and> (get_device_type env (length inputs) = Inr d \<and>
        initialize_model env (model_name self) d (model_cache_dir self) = Inr model \<and>
        encode model inputs (calculate_prompt_name model context) = Inl e \<and> inputs \<noteq> [] \<longrightarrow>
          embed_text env self inputs context =
            (Inl e,
             [GetDeviceType (length inputs),
              InitializeModel (model_name self) d (model_cache_dir self),
              Encode inputs (calculate_prompt_name model context),
              HandleExceededLength e inputs]))"
proof (intro conjI impI)
  show "EXCEEDED_LENGTH_EXCEPTION_PREDICATE_BY_EXCEPTION_TYPE (exn_type e) = None"
    using assms(1,2) by (simp add: EXCEEDED_LENGTH_EXCEPTION_PREDICATE_BY_EXCEPTION_TYPE_def)
  show h: "handle_exceeded_length_exception self e batch = Inl e" for batch
    using assms(1,2) by (simp add: handle_no_match matches_other)
  assume s: "get_device_type env (length inputs) = Inr d \<and>
        initialize_model env (model_name self) d (model_cache_dir self) = Inr model \<and>
        encode model inputs (calculate_prompt_name model context) = Inl e \<and> inputs \<noteq> []"
  have i: "isinstance e RuntimeError \<or> isinstance e ValueError"
    using assms(3) by (simp add: isinstance_def)
  show "embed_text env self inputs context =
            (Inl e,
             [GetDeviceType (length inputs),
              InitializeModel (model_name self) d (model_cache_dir self),
              Encode inputs (calculate_prompt_name model context),
              HandleExceededLength e inputs])"
    using s i h [of inputs]
    by (simp add: embed_text_def embed_def get_embedding_model_def Let_def)
qed

theorem C9_subclass_not_translated_witness:
  "runtime_error_predicate not_implemented_error
   \<and> handle_exceeded_length_exception example_manager not_implemented_error mixed_inputs =
       Inl not_implemented_error
   \<and> embed_text (example_env (raising_model not_implemented_error)) example_manager mixed_inputs
       indexing_context =
       (Inl not_implemented_error,
        [GetDeviceType 3, InitializeModel ''all-MiniLM-L6-v2'' ''cpu'' ''/cache'',
         Encode mixed_inputs None, HandleExceededLength not_implemented_error mixed_inputs])
   \<and> value_error_predicate unicode_error
   \<and> handle_exceeded_length_exception example_manager unicode_error mixed_inputs =
       Inl unicode_error"
proof -
  have ne: "mixed_inputs \<noteq> []"
    by (simp add: mixed_inputs_def)
  have l: "length mixed_inputs = 3"
    by (simp add: mixed_inputs_def)
  have dev: "get_device_type (example_env (raising_model x)) (length mixed_inputs) = Inr ''cpu''" for x
    by (simp add: example_env_device mixed_inputs_def)
  note ini = example_env_model and enc = raising_model_encode
  have pn: "calculate_prompt_name (raising_model x) indexing_context = None" for x
    by (simp add: calculate_prompt_name_def raising_model_def)
  have en: "encode (raising_model x) mixed_inputs None = Inl x" for x
    by (simp add: raising_model_def)
  have a: "exn_type not_implemented_error \<noteq> RuntimeError"
    "exn_type not_implemented_error \<noteq> ValueError"
    "issubclass (exn_type not_implemented_error) RuntimeError \<or>
     issubclass (exn_type not_implemented_error) ValueError"
    by (simp_all add: not_implemented_error_def issubclass.simps)
  have b: "exn_type unicode_error \<noteq> RuntimeError"
    "exn_type unicode_error \<noteq> ValueError"
    "issubclass (exn_type unicode_error) RuntimeError \<or>
     issubclass (exn_type unicode_error) ValueError"
    by (simp_all add: unicode_error_def issubclass.simps)
  have p: "runtime_error_predicate not_implemented_error"
    by (simp add: runtime_error_predicate_def not_implemented_error_def)
  have q: "value_error_predicate unicode_error"
    by (simp add: value_error_predicate_def unicode_error_def)
  show ?thesis
    using C9_subclass_not_translated [OF a, of example_manager mixed_inputs
        "example_env (raising_model not_implemented_error)" mixed_inputs "''cpu''"
        "raising_model not_implemented_error" indexing_context]
      C9_subclass_not_translated [OF b, of example_manager mixed_inputs
        "example_env (raising_model unicode_error)" mixed_inputs "''cpu''"
        "raising_model unicode_error" indexing_context]
      ne dev ini p q
    by (simp add: l pn en example_manager_def)
qed

subsection \<open>The handler's batch is never empty\<close>

text \<open>
  C10. The longest-input-length computation has no value on an empty batch (\<^verbatim>\<open>max\<close> raises
  there, and so does the handler when the error matches); \<^const>\<open>embed_text\<close> makes no call on
  an empty batch, and every call of the failure handler that \<^const>\<open>embed_text\<close> makes is on its
  own, non-empty batch, where the computation has a value.
\<close>

theorem C10_handler_batch_never_empty:
  "longest_input_len [] = Inl max_empty_error
   \<and> (exceeded_length_matches e \<longrightarrow>
        handle_exceeded_length_exception self e [] = Inl max_empty_error)
   \<and> snd (embed_text env self [] context) = []
   \<and> (\<forall>caught batch.
        HandleExceededLength caught batch \<in> set (snd (embed_text env self inputs context)) \<longrightarrow>
          batch = inputs \<and> batch \<noteq> [] \<and>
          longest_input_len batch = Inr (Max (input_len ` set batch)))"
proof (intro conjI impI allI)
  show "longest_input_len [] = Inl max_empty_error"
    by (simp add: longest_input_len_def)
  show "handle_exceeded_length_exception self e [] = Inl max_empty_error"
    if "exceeded_length_matches e"
    using that by (simp add: handle_exceeded_length_exception_def longest_input_len_def)
  show "snd (embed_text env self [] context) = []"
    by (simp add: embed_text_def)
  fix caught batch
  assume c: "HandleExceededLength caught batch \<in> set (snd (embed_text env self inputs context))"
  have ne: "inputs \<noteq> []"
  proof
    assume "inputs = []"
    with c show False by (simp add: embed_text_def)
  qed
  from c have "HandleExceededLength caught batch \<in> set (snd (embed env self inputs context))"
    by (simp add: embed_text_nonempty(2) [OF ne])
  then show b: "batch = inputs"
    by (auto simp add: embed_def get_embedding_model_def Let_def split: sum.splits if_splits)
  show "batch \<noteq> []"
    using b ne by simp
  show "longest_input_len batch = Inr (Max (input_len ` set batch))"
    using b ne by (simp add: longest_input_len_Max)
qed

theorem C10_handler_batch_never_empty_witness:
  "HandleExceededLength tensor_size_error mixed_inputs \<in>
     set (snd (embed_text (example_env (raising_model tensor_size_error)) example_manager
                mixed_inputs indexing_context))
   \<and> longest_input_len mixed_inputs = Inr 13
   \<and> handle_exceeded_length_exception example_manager tensor_size_error [] = Inl max_empty_error"
proof -
  have m: "exceeded_length_matches tensor_size_error"
    by (simp add: matches_RuntimeError runtime_error_predicate_def tensor_size_error_def)
  have i: "isinstance tensor_size_error RuntimeError"
    by (simp add: isinstance_def issubclass.simps tensor_size_error_def)
  have ne: "mixed_inputs \<noteq> []"
    by (simp add: mixed_inputs_def)
  have t: "HandleExceededLength tensor_size_error mixed_inputs \<in>
     set (snd (embed_text (example_env (raising_model tensor_size_error)) example_manager
                mixed_inputs indexing_context))"
    using i ne handle_raises [of example_manager tensor_size_error mixed_inputs]
    by (auto simp add: embed_text_def embed_def get_embedding_model_def Let_def example_env_def
        raising_model_def split: sum.splits prod.splits)
  have len: "Max (input_len ` set mixed_inputs) = 13"
    by (simp add: mixed_inputs_def)
  show ?thesis
    using C10_handler_batch_never_empty [of tensor_size_error example_manager
        "example_env (raising_model tensor_size_error)" indexing_context mixed_inputs] m t len
    by auto
qed

end
